theory Spec2Isabelle
  imports Complex_Main "HOL-Library.AList"
begin

section \<open>Python strings\<close>

text \<open>
  A Python \<open>str\<close> is a sequence of code points; the keys, ids and timestamps handled
  here are ASCII (the two fixed notices of the metadata block use U+00DA, which still
  fits a \<^typ>\<open>char\<close>), so a \<^typ>\<open>string\<close> carries one code point per element.
\<close>

definition dquote :: char where
  "dquote = CHR 0x22"

definition backslash :: char where
  "backslash = CHR 0x5C"

text \<open>\<^verbatim>\<open>s.startswith(p)\<close>\<close>

definition startswith :: "string \<Rightarrow> string \<Rightarrow> bool" where
  "startswith s p = (take (length p) s = p)"

text \<open>Comparison of two \<open>str\<close> values: lexicographic on code points.\<close>

fun str_lt :: "string \<Rightarrow> string \<Rightarrow> bool" where
  "str_lt [] [] = False"
| "str_lt [] (y # ys) = True"
| "str_lt (x # xs) [] = False"
| "str_lt (x # xs) (y # ys) =
     (if x = y then str_lt xs ys else (of_char x :: nat) < of_char y)"

text \<open>
  \<^verbatim>\<open>sorted(xs)\<close> and \<^verbatim>\<open>xs.sort(key=k, reverse=True)\<close> are stable: elements with equal
  keys keep their original order, also under \<open>reverse\<close>. \<open>precedes a b\<close> says that \<open>a\<close>
  has to come strictly before \<open>b\<close>; an element is put in front of the first one that
  does not have to precede it.
\<close>

fun insort_stable :: "('a \<Rightarrow> 'a \<Rightarrow> bool) \<Rightarrow> 'a \<Rightarrow> 'a list \<Rightarrow> 'a list" where
  "insort_stable precedes x [] = [x]"
| "insort_stable precedes x (y # ys) =
     (if precedes y x then y # insort_stable precedes x ys else x # y # ys)"

definition sort_stable :: "('a \<Rightarrow> 'a \<Rightarrow> bool) \<Rightarrow> 'a list \<Rightarrow> 'a list" where
  "sort_stable precedes xs = foldr (insort_stable precedes) xs []"

definition sorted_py :: "string list \<Rightarrow> string list" where
  "sorted_py xs = sort_stable str_lt xs"

section \<open>Python floats and \<open>round\<close>\<close>

text \<open>
  The two derived statistics are Python floats. They are modelled as exact rationals:
  \<open>total_level / total_requirements\<close> is the exact quotient and \<open>round(x, n)\<close> is
  rounding to \<open>n\<close> decimals, a tie going to the even neighbour. The binary rounding
  error of a double (relative \<open>2\<^sup>-\<^sup>5\<^sup>3\<close>) is left out.
\<close>

definition round_half_even :: "rat \<Rightarrow> int" where
  "round_half_even x =
     (let f = \<lfloor>x\<rfloor>; d = x - of_int f
      in if d < 1 / 2 then f else if 1 / 2 < d then f + 1
         else if even f then f else f + 1)"

definition py_round :: "rat \<Rightarrow> nat \<Rightarrow> rat" where
  "py_round x n = of_int (round_half_even (x * 10 ^ n)) / 10 ^ n"

section \<open>The Ledger file\<close>

text \<open>
  \<open>ISO_VERIFICATION_STATUS.toml\<close> holds a \<open>metadata\<close> table, a \<open>statistics\<close> table
  and one table per requirement; \<open>toml.load\<close> returns it as a \<open>dict\<close> of \<open>dict\<close>s. Each
  table has a fixed set of keys and is a record here, so a file that lacks a table or a
  key is not a value of the model. The tables other than \<open>metadata\<close> and \<open>statistics\<close>
  stay an association list in file order under their full top-level key: the scripts
  find them by \<^verbatim>\<open>key.startswith('status.')\<close> and by key lookup, and neither
  \<open>metadata\<close> nor \<open>statistics\<close> starts with \<open>status.\<close>. Assigning to a key of a \<open>dict\<close>
  replaces the value in place or appends a new item, which is what \<open>AList.update\<close>
  does. \<open>toml.dump\<close> followed by \<open>toml.load\<close> is taken to give the same \<open>dict\<close> back.
\<close>

record entry =
  level :: int
  implementation :: string
  test_file :: string
  verified :: bool
  last_checked :: string
  "notes" :: string

record metadata =
  last_updated :: string
  matrix_version :: string
  total_requirements :: int
  "note" :: string
  warning :: string

record statistics =
  level_0_count :: int
  level_1_count :: int
  level_2_count :: int
  level_3_count :: int
  level_4_count :: int
  average_level :: rat
  compliance_percentage :: rat
  last_calculated :: string

record status_data =
  metadata :: metadata
  tables :: "(string \<times> entry) list"
  statistics :: statistics

text \<open>
  \<open>datetime.now().isoformat()\<close> is read several times in one run; \<open>now k\<close> is the
  value of the \<open>k\<close>-th reading.
\<close>

type_synonym clock = "nat \<Rightarrow> string"

text \<open>What a call does to the process: it returns a value, or \<open>sys.exit(n)\<close> ends it.\<close>

datatype 'a outcome = Returned 'a | SysExit int

section \<open>\<open>scripts/update_verification_status.py\<close>\<close>

text \<open>
  \<open>load_current_status\<close>: the file is \<open>None\<close> when \<open>STATUS_FILE\<close> does not exist.
\<close>

definition load_current_status :: "status_data option \<Rightarrow> status_data outcome" where
  "load_current_status file =
     (case file of None \<Rightarrow> SysExit 1 | Some status_data \<Rightarrow> Returned status_data)"

text \<open>
  The key the updater looks a requirement up under. The source literal
  \<^verbatim>\<open>f'status.\\\\\\\\\\\\\\"{req_id}\\\\\\\\\\\\\\"'\<close> has fourteen backslash characters before
  each quote, which Python reads as seven backslashes.
\<close>

definition status_key :: "string \<Rightarrow> string" where
  "status_key req_id =
     ''status.'' @ replicate 7 backslash @ [dquote] @ req_id @ replicate 7 backslash @ [dquote]"

text \<open>
  The loop of \<open>recalculate_statistics\<close>, with its three accumulators
  \<open>level_counts\<close>, \<open>total_level\<close> and \<open>total_requirements\<close>.
\<close>

fun count_levels ::
  "(string \<times> entry) list \<Rightarrow> int list \<times> int \<times> int \<Rightarrow> int list \<times> int \<times> int" where
  "count_levels [] acc = acc"
| "count_levels ((key, req_status) # rest) (level_counts, total_level, total_reqs) =
     (if startswith key ''status.'' then
        (let lvl = level req_status
         in if 0 \<le> lvl \<and> lvl \<le> 4 then
              count_levels rest
                (level_counts[nat lvl := level_counts ! nat lvl + 1],
                 total_level + lvl, total_reqs + 1)
            else count_levels rest (level_counts, total_level, total_reqs))
      else count_levels rest (level_counts, total_level, total_reqs))"

definition recalculate_statistics :: "string \<Rightarrow> status_data \<Rightarrow> status_data" where
  "recalculate_statistics now_calc sd =
     (case count_levels (tables sd) ([0, 0, 0, 0, 0], 0, 0) of
        (level_counts, total_level, total_reqs) \<Rightarrow>
          (let average = (if total_reqs > 0 then of_int total_level / of_int total_reqs else 0)
           in sd\<lparr>statistics :=
                \<lparr>level_0_count = level_counts ! 0,
                 level_1_count = level_counts ! 1,
                 level_2_count = level_counts ! 2,
                 level_3_count = level_counts ! 3,
                 level_4_count = level_counts ! 4,
                 average_level = py_round average 3,
                 compliance_percentage = py_round ((average / 4) * 100) 2,
                 last_calculated = now_calc\<rparr>\<rparr>))"

text \<open>
  \<open>update_requirement_status\<close> reads the file, validates, changes the loaded copy and
  writes it back. The result is what the call returns together with the file afterwards.
  \<open>update_entry\<close> is the block of assignments to the requirement's table: level,
  \<open>verified\<close>, \<open>last_checked\<close>, and each optional argument that is not empty.
\<close>

definition update_entry :: "int \<Rightarrow> string \<Rightarrow> string \<Rightarrow> string \<Rightarrow> string \<Rightarrow> entry \<Rightarrow> entry" where
  "update_entry lvl impl tfile nts now_checked e =
     (let e1 = e\<lparr>level := lvl, verified := (lvl \<ge> 3), last_checked := now_checked\<rparr>;
          e2 = (if impl \<noteq> [] then e1\<lparr>implementation := impl\<rparr> else e1);
          e3 = (if tfile \<noteq> [] then e2\<lparr>test_file := tfile\<rparr> else e2)
      in if nts \<noteq> [] then e3\<lparr>notes := nts\<rparr> else e3)"

definition update_requirement_status ::
  "string \<Rightarrow> int \<Rightarrow> string \<Rightarrow> string \<Rightarrow> string \<Rightarrow> clock \<Rightarrow> status_data option
     \<Rightarrow> bool outcome \<times> status_data option" where
  "update_requirement_status req_id lvl impl tfile nts now file =
     (case load_current_status file of
        SysExit n \<Rightarrow> (SysExit n, file)
      | Returned sd \<Rightarrow>
          if lvl \<notin> set [0, 1, 2, 3, 4] then (Returned False, file)
          else
            (case map_of (tables sd) (status_key req_id) of
               None \<Rightarrow> (Returned False, file)
             | Some e \<Rightarrow>
                 (let sd1 = sd\<lparr>tables :=
                        AList.update (status_key req_id)
                          (update_entry lvl impl tfile nts (now 0) e) (tables sd)\<rparr>;
                      sd2 = sd1\<lparr>metadata := (metadata sd1)\<lparr>last_updated := now 1\<rparr>\<rparr>;
                      sd3 = recalculate_statistics (now 2) sd2
                  in (Returned True, Some sd3))))"

section \<open>\<open>scripts/create_initial_status.py\<close>\<close>

text \<open>
  The Matrix file \<open>ISO_COMPLIANCE_MATRIX.toml\<close>: a \<open>metadata\<close> table and further
  top-level tables in file order. A section table may carry a \<open>requirements\<close> array;
  of a requirement only its \<open>id\<close> is read here.
\<close>

record requirement =
  rid :: string

record section_data =
  requirements :: "requirement list option"

record matrix_metadata =
  version :: string
  total_features :: int

record matrix =
  matrix_metadata :: matrix_metadata
  sections :: "(string \<times> section_data) list"

fun collect_ids :: "(string \<times> section_data) list \<Rightarrow> string list" where
  "collect_ids [] = []"
| "collect_ids ((section_key, sect) # rest) =
     (if startswith section_key ''section_'' then
        (case requirements sect of
           Some reqs \<Rightarrow> map rid reqs @ collect_ids rest
         | None \<Rightarrow> collect_ids rest)
      else collect_ids rest)"

definition extract_all_requirement_ids :: "matrix \<Rightarrow> string list" where
  "extract_all_requirement_ids m = sorted_py (collect_ids (sections m))"

text \<open>The key the initializer stores a requirement under: \<^verbatim>\<open>f'status."{req_id}"'\<close>.\<close>

definition initial_status_key :: "string \<Rightarrow> string" where
  "initial_status_key req_id = ''status.'' @ [dquote] @ req_id @ [dquote]"

definition initial_entry :: entry where
  "initial_entry =
     \<lparr>level = 0, implementation = [], test_file = [], verified = False,
      last_checked = ''never'', notes = ''Pendiente de verificaci'' @ [CHR 0xF3] @ ''n''\<rparr>"

text \<open>The loop \<^verbatim>\<open>for req_id in requirement_ids: status_data[status_key] = {...}\<close>.\<close>

fun init_tables :: "string list \<Rightarrow> (string \<times> entry) list \<Rightarrow> (string \<times> entry) list" where
  "init_tables [] acc = acc"
| "init_tables (req_id # rest) acc =
     init_tables rest (AList.update (initial_status_key req_id) initial_entry acc)"

definition create_initial_status :: "matrix \<Rightarrow> string list \<Rightarrow> clock \<Rightarrow> status_data" where
  "create_initial_status m requirement_ids now =
     \<lparr>metadata =
        \<lparr>last_updated = now 0,
         matrix_version = version (matrix_metadata m),
         total_requirements = int (length requirement_ids),
         note = ''Este es el '' @ [CHR 0xDA] @ ''NICO archivo de estado. NO crear copias o duplicados.'',
         warning = ''Solo este archivo se modifica. La matriz ISO_COMPLIANCE_MATRIX.toml es INMUTABLE.''\<rparr>,
      tables = init_tables requirement_ids [],
      statistics =
        \<lparr>level_0_count = int (length requirement_ids),
         level_1_count = 0,
         level_2_count = 0,
         level_3_count = 0,
         level_4_count = 0,
         average_level = 0,
         compliance_percentage = 0,
         last_calculated = now 1\<rparr>\<rparr>"

text \<open>
  \<open>main\<close> of the initializer: the exit status of the run and the Ledger file afterwards.
  \<open>response\<close> is the line read by \<open>input\<close> when the Ledger file already exists; only
  \<open>y\<close> or \<open>Y\<close> lowers to \<open>y\<close>.
\<close>

definition create_initial_status_main ::
  "matrix option \<Rightarrow> string \<Rightarrow> clock \<Rightarrow> status_data option \<Rightarrow> int \<times> status_data option" where
  "create_initial_status_main matrix_file response now status_file =
     (case matrix_file of
        None \<Rightarrow> (1, status_file)
      | Some m \<Rightarrow>
          if status_file \<noteq> None \<and> response \<noteq> ''y'' \<and> response \<noteq> ''Y'' then (0, status_file)
          else (0, Some (create_initial_status m (extract_all_requirement_ids m) now)))"

section \<open>\<open>scripts/update_verification_status.py\<close>: the command line\<close>

text \<open>
  \<open>main\<close> of the updater. \<open>argparse\<close> has converted \<open>--level\<close> with \<open>int\<close> already;
  a value outside \<^verbatim>\<open>choices=[0,1,2,3,4]\<close> makes \<open>parse_args\<close> end the run with
  status 2. An option that was not given is \<open>None\<close>. The result is the exit status of
  the run and the Ledger file afterwards; a run that reaches the end of \<open>main\<close> exits
  with status 0.
\<close>

record args =
  arg_req_id :: "string option"
  arg_level :: "int option"
  arg_implementation :: "string option"
  arg_test_file :: "string option"
  arg_notes :: "string option"
  arg_show :: "string option"
  arg_stats :: bool

text \<open>\<^verbatim>\<open>x or ""\<close> and the truth value of an optional string.\<close>

definition or_empty :: "string option \<Rightarrow> string" where
  "or_empty x = (case x of None \<Rightarrow> [] | Some s \<Rightarrow> s)"

definition truthy :: "string option \<Rightarrow> bool" where
  "truthy x = (case x of None \<Rightarrow> False | Some s \<Rightarrow> s \<noteq> [])"

definition exit_status :: "'a outcome \<Rightarrow> int" where
  "exit_status out = (case out of Returned v \<Rightarrow> 0 | SysExit n \<Rightarrow> n)"

text \<open>Both read-only commands load the Ledger and print; the printing is left out.\<close>

definition show_overall_statistics :: "status_data option \<Rightarrow> unit outcome" where
  "show_overall_statistics file =
     (case load_current_status file of SysExit n \<Rightarrow> SysExit n | Returned sd \<Rightarrow> Returned ())"

definition show_requirement_status :: "string \<Rightarrow> status_data option \<Rightarrow> unit outcome" where
  "show_requirement_status req_id file =
     (case load_current_status file of SysExit n \<Rightarrow> SysExit n | Returned sd \<Rightarrow> Returned ())"

definition update_verification_status_main ::
  "args \<Rightarrow> clock \<Rightarrow> status_data option \<Rightarrow> int \<times> status_data option" where
  "update_verification_status_main a now file =
     (if (case arg_level a of None \<Rightarrow> False | Some lvl \<Rightarrow> lvl \<notin> set [0, 1, 2, 3, 4])
      then (2, file)
      else if arg_stats a then (exit_status (show_overall_statistics file), file)
      else if truthy (arg_show a)
      then (exit_status (show_requirement_status (or_empty (arg_show a)) file), file)
      else if truthy (arg_req_id a) \<and> arg_level a \<noteq> None
      then
        (case arg_level a of
           None \<Rightarrow> (0, file)
         | Some lvl \<Rightarrow>
             (case update_requirement_status (or_empty (arg_req_id a)) lvl
                     (or_empty (arg_implementation a)) (or_empty (arg_test_file a))
                     (or_empty (arg_notes a)) now file of
                (out, file') \<Rightarrow> (exit_status out, file')))
      else (0, file))"

section \<open>\<open>scripts/generate_compliance_report.py\<close>: recent activity\<close>

text \<open>\<^verbatim>\<open>s.replace(old, new)\<close>: the occurrences of \<open>old\<close> from the left, not overlapping.\<close>

function replace_from :: "string \<Rightarrow> string \<Rightarrow> string \<Rightarrow> string" where
  "replace_from old new [] = []"
| "replace_from old new (c # cs) =
     (if old \<noteq> [] \<and> startswith (c # cs) old
      then new @ replace_from old new (drop (length old) (c # cs))
      else c # replace_from old new cs)"
  by pat_completeness auto
termination
  by (relation "measure (\<lambda>(old, new, s). length s)") auto

definition str_replace :: "string \<Rightarrow> string \<Rightarrow> string \<Rightarrow> string" where
  "str_replace s old new =
     (if old = [] then new @ concat (map (\<lambda>c. c # new) s) else replace_from old new s)"

text \<open>
  The part of \<open>generate_markdown_report\<close> under the heading \<open>Recent Activity\<close>: the
  tuples \<open>(req_id, level, last_checked, notes)\<close> of the requirement tables, sorted with
  \<^verbatim>\<open>recent_updates.sort(key=lambda x: x[2], reverse=True)\<close>, and the cells of the table
  rows written for \<^verbatim>\<open>recent_updates[:10]\<close>.
\<close>

type_synonym recent = "string \<times> int \<times> string \<times> string"

definition recent_key :: "recent \<Rightarrow> string" where
  "recent_key x = fst (snd (snd x))"

fun collect_recent :: "(string \<times> entry) list \<Rightarrow> recent list" where
  "collect_recent [] = []"
| "collect_recent ((key, req_status) # rest) =
     (if startswith key ''status.'' then
        (str_replace (str_replace key (''status.'' @ [dquote]) []) [dquote] [],
         level req_status, last_checked req_status, notes req_status) # collect_recent rest
      else collect_recent rest)"

definition recent_updates :: "status_data \<Rightarrow> recent list" where
  "recent_updates sd =
     sort_stable (\<lambda>a b. str_lt (recent_key b) (recent_key a)) (collect_recent (tables sd))"

definition short_notes :: "string \<Rightarrow> string" where
  "short_notes nts = (if length nts > 50 then take 50 nts @ ''...'' else nts)"

definition recent_activity_rows :: "status_data \<Rightarrow> recent list" where
  "recent_activity_rows sd =
     map (\<lambda>(req_id, lvl, checked, nts). (req_id, lvl, take 10 checked, short_notes nts))
       (take 10 (recent_updates sd))"

section \<open>\<open>tools/master_compliance_analyzer.py\<close>: evidence score\<close>

text \<open>\<^verbatim>\<open>sub in s\<close> and \<^verbatim>\<open>s.count(sub)\<close> (occurrences from the left, not overlapping).\<close>

fun contains :: "string \<Rightarrow> string \<Rightarrow> bool" where
  "contains [] sub = (sub = [])"
| "contains (c # cs) sub = (startswith (c # cs) sub \<or> contains cs sub)"

function count_from :: "string \<Rightarrow> string \<Rightarrow> nat" where
  "count_from sub [] = 0"
| "count_from sub (c # cs) =
     (if sub \<noteq> [] \<and> startswith (c # cs) sub
      then 1 + count_from sub (drop (length sub) (c # cs))
      else count_from sub cs)"
  by pat_completeness auto
termination
  by (relation "measure (\<lambda>(sub, s). length s)") auto

definition str_count :: "string \<Rightarrow> string \<Rightarrow> nat" where
  "str_count s sub = (if sub = [] then length s + 1 else count_from sub s)"

text \<open>\<^verbatim>\<open>s.lower()\<close> and \<^verbatim>\<open>s.split()\<close> on the code points up to 255.\<close>

definition char_lower :: "char \<Rightarrow> char" where
  "char_lower c =
     (let n = (of_char c :: nat)
      in if (65 \<le> n \<and> n \<le> 90) \<or> (192 \<le> n \<and> n \<le> 222 \<and> n \<noteq> 215)
         then char_of (n + 32) else c)"

definition str_lower :: "string \<Rightarrow> string" where
  "str_lower s = map char_lower s"

definition is_space :: "char \<Rightarrow> bool" where
  "is_space c = (of_char c \<in> {9, 10, 11, 12, 13, 28, 29, 30, 31, 32, 133, 160 :: nat})"

fun split_from :: "string \<Rightarrow> string \<Rightarrow> string list" where
  "split_from cur [] = (if cur = [] then [] else [cur])"
| "split_from cur (c # cs) =
     (if is_space c then (if cur = [] then split_from [] cs else cur # split_from [] cs)
      else split_from (cur @ [c]) cs)"

definition str_split :: "string \<Rightarrow> string list" where
  "str_split s = split_from [] s"

text \<open>
  A requirement of \<open>ISO_REQUIREMENTS_MASTER.json\<close>: \<open>req_keywords\<close> is \<open>None\<close> when
  the requirement has no \<open>'keywords'\<close> key. \<open>findall\<close> stands for \<^verbatim>\<open>re.findall(r'\\b\\w+\\b', _)\<close> of the regular
  expression library.
\<close>

record master_requirement =
  req_keywords :: "string list option"
  req_text :: string

definition pdf_terms :: "string list" where
  "pdf_terms =
     [''pdf'', ''object'', ''stream'', ''dictionary'', ''array'', ''page'',
      ''graphics'', ''text'', ''font'', ''color'', ''image'', ''filter'',
      ''annotation'', ''form'', ''field'', ''encrypt'', ''security'']"

definition extract_basic_keywords :: "(string \<Rightarrow> string list) \<Rightarrow> string \<Rightarrow> string list" where
  "extract_basic_keywords findall txt = filter (\<lambda>w. w \<in> set pdf_terms) (findall (str_lower txt))"

text \<open>The keywords \<open>_calculate_evidence_score\<close> settles on before it scans.\<close>

definition evidence_keywords :: "(string \<Rightarrow> string list) \<Rightarrow> master_requirement \<Rightarrow> string list" where
  "evidence_keywords findall req =
     (let kw0 = (case req_keywords req of None \<Rightarrow> [] | Some ks \<Rightarrow> ks);
          kw1 = (if kw0 = [] then extract_basic_keywords findall (req_text req) else kw0)
      in if kw1 = []
         then filter (\<lambda>w. w \<in> set pdf_terms) (str_split (str_lower (req_text req)))
         else kw1)"

text \<open>The two nested loops over the keywords and over \<open>self.source_files.values()\<close>.\<close>

fun score_files :: "string \<Rightarrow> string list \<Rightarrow> nat \<Rightarrow> nat" where
  "score_files keyword [] score = score"
| "score_files keyword (file_content # rest) score =
     (if contains file_content keyword
      then score_files keyword rest (score + min (str_count file_content keyword) 5)
      else score_files keyword rest score)"

fun score_keywords :: "string list \<Rightarrow> string list \<Rightarrow> nat \<Rightarrow> nat" where
  "score_keywords [] files score = score"
| "score_keywords (keyword # rest) files score =
     score_keywords rest files (score_files keyword files score)"

definition calculate_evidence_score ::
  "(string \<Rightarrow> string list) \<Rightarrow> (string \<times> string) list \<Rightarrow> master_requirement \<Rightarrow> nat" where
  "calculate_evidence_score findall source_files req =
     score_keywords (evidence_keywords findall req) (map snd source_files) 0"

text \<open>The level \<open>analyze_implementation\<close> gives a requirement from its score.\<close>

datatype impl_level = Impl | Partial | Missing

definition implementation_level :: "nat \<Rightarrow> impl_level" where
  "implementation_level evidence_score =
     (if evidence_score \<ge> 20 then Impl
      else if evidence_score \<ge> 8 then Partial
      else Missing)"

text \<open>
  The scanner as the specification words it, with the cap and the two thresholds as
  parameters: every keyword and every file contributes the smaller of the number of
  occurrences and the cap.
\<close>

definition spec_score :: "nat \<Rightarrow> string list \<Rightarrow> string list \<Rightarrow> nat" where
  "spec_score cap kws files =
     (\<Sum>k\<leftarrow>kws. \<Sum>f\<leftarrow>files. min (str_count f k) cap)"

definition spec_classify :: "nat \<Rightarrow> nat \<Rightarrow> nat \<Rightarrow> impl_level" where
  "spec_classify t_full t_partial score =
     (if score \<ge> t_full then Impl
      else if t_partial \<le> score \<and> score < t_full then Partial
      else Missing)"

section \<open>Properties of a Ledger\<close>








section \<open>Sample data\<close>

text \<open>
  A Ledger file as the updater expects it, with two requirement tables under the
  updater's keys; two clocks; the same Ledger after requirement 7.5.2.2 has been set
  to level 3 at the first clock; a Ledger with the initializer's keys; two Matrix
  files, the second with one id twice; command lines; a requirement with one
  keyword and a corpus of four files.
\<close>

definition demo_entry :: entry where
  "demo_entry =
     \<lparr>level = 1, implementation = ''src/document.rs:156'', test_file = [],
      verified = False, last_checked = ''2025-08-21T10:15:00'', notes = ''draft''\<rparr>"

definition demo_ledger :: status_data where
  "demo_ledger =
     \<lparr>metadata =
        \<lparr>last_updated = ''2025-08-21T10:15:00'', matrix_version = ''1.0'',
         total_requirements = 2, note = [], warning = []\<rparr>,
      tables = [(status_key ''7.5.2.1'', demo_entry), (status_key ''7.5.2.2'', initial_entry)],
      statistics =
        \<lparr>level_0_count = 1, level_1_count = 1, level_2_count = 0, level_3_count = 0,
         level_4_count = 0, average_level = 1 / 2, compliance_percentage = 25 / 2,
         last_calculated = ''2025-08-21T10:15:00''\<rparr>\<rparr>"

definition demo_clock :: clock where
  "demo_clock k = ''2025-09-01T08:00:0'' @ [char_of (48 + k)]"

definition later_clock :: clock where
  "later_clock k = ''2025-09-02T09:30:0'' @ [char_of (48 + k)]"

definition demo_updated :: status_data where
  "demo_updated =
     \<lparr>metadata =
        \<lparr>last_updated = ''2025-09-01T08:00:01'', matrix_version = ''1.0'',
         total_requirements = 2, note = [], warning = []\<rparr>,
      tables =
        [(status_key ''7.5.2.1'', demo_entry),
         (status_key ''7.5.2.2'',
          initial_entry\<lparr>level := 3, verified := True, last_checked := ''2025-09-01T08:00:00''\<rparr>)],
      statistics =
        \<lparr>level_0_count = 0, level_1_count = 1, level_2_count = 0, level_3_count = 1,
         level_4_count = 0, average_level = 2, compliance_percentage = 50,
         last_calculated = ''2025-09-01T08:00:02''\<rparr>\<rparr>"

definition report_ledger :: status_data where
  "report_ledger =
     demo_ledger\<lparr>tables :=
       [(initial_status_key ''7.5.2.1'', demo_entry),
        (initial_status_key ''7.5.2.2'', initial_entry)]\<rparr>"

definition demo_matrix :: matrix where
  "demo_matrix =
     \<lparr>matrix_metadata = \<lparr>version = ''1.0'', total_features = 2\<rparr>,
      sections =
        [(''section_7'', \<lparr>requirements = Some [\<lparr>rid = ''7.5.2.2''\<rparr>, \<lparr>rid = ''7.5.2.1''\<rparr>]\<rparr>),
         (''overall_summary'', \<lparr>requirements = None\<rparr>)]\<rparr>"

definition dup_matrix :: matrix where
  "dup_matrix =
     \<lparr>matrix_metadata = \<lparr>version = ''1.0'', total_features = 2\<rparr>,
      sections =
        [(''section_7'', \<lparr>requirements = Some [\<lparr>rid = ''7.5.2.1''\<rparr>, \<lparr>rid = ''7.5.2.1''\<rparr>]\<rparr>)]\<rparr>"

definition no_args :: args where
  "no_args =
     \<lparr>arg_req_id = None, arg_level = None, arg_implementation = None, arg_test_file = None,
      arg_notes = None, arg_show = None, arg_stats = False\<rparr>"

definition catalog_req :: master_requirement where
  "catalog_req = \<lparr>req_keywords = Some [''catalog''], req_text = ''The catalog shall exist.''\<rparr>"

definition catalog_files :: "(string \<times> string) list" where
  "catalog_files =
     [(''a.rs'', ''catalog catalog catalog catalog catalog catalog catalog''),
      (''b.rs'', ''catalog catalog catalog catalog catalog''),
      (''c.rs'', ''fn catalog() -> catalog { catalog::new() }; // catalog, catalog''),
      (''d.rs'', ''struct pages; // catalog catalog catalog catalog catalog'')]"

section \<open>Keys, tables and sorting\<close>

lemma keys_differ: "status_key r \<noteq> initial_status_key r'"
  by (simp add: status_key_def initial_status_key_def backslash_def dquote_def numeral_eq_Suc)

lemma initial_status_key_inj: "inj initial_status_key"
  by (rule injI) (simp add: initial_status_key_def)






lemma set_insort_stable: "set (insort_stable pr x ys) = insert x (set ys)"
  by (induction ys) auto

lemma set_sort_stable: "set (sort_stable pr xs) = set xs"
  by (induction xs) (simp_all add: sort_stable_def set_insort_stable)

lemma length_insort_stable: "length (insort_stable pr x ys) = Suc (length ys)"
  by (induction ys) auto

lemma length_sort_stable: "length (sort_stable pr xs) = length xs"
  by (induction xs) (simp_all add: sort_stable_def length_insort_stable)

lemma set_extract_ids: "set (extract_all_requirement_ids m) = set (collect_ids (sections m))"
  by (simp add: extract_all_requirement_ids_def sorted_py_def set_sort_stable)

lemma length_extract_ids:
  "length (extract_all_requirement_ids m) = length (collect_ids (sections m))"
  by (simp add: extract_all_requirement_ids_def sorted_py_def length_sort_stable)

section \<open>The tables the initializer writes\<close>

lemma init_tables_keys:
  "fst ` set (init_tables ids acc) = fst ` set acc \<union> initial_status_key ` set ids"
  by (induction ids arbitrary: acc) (auto simp: dom_update)

lemma init_tables_distinct:
  "distinct (map fst acc) \<Longrightarrow> distinct (map fst (init_tables ids acc))"
  by (induction ids arbitrary: acc) (auto simp: distinct_update)



lemma initialized_has_no_updater_key:
  "map_of (tables (create_initial_status m ids now)) (status_key req_id) = None"
  by (auto simp: create_initial_status_def map_of_eq_None_iff init_tables_keys keys_differ)

lemma demo_ids: "extract_all_requirement_ids demo_matrix = [''7.5.2.1'', ''7.5.2.2'']"
  by (simp add: extract_all_requirement_ids_def demo_matrix_def sorted_py_def sort_stable_def
      startswith_def)

lemma dup_ids: "extract_all_requirement_ids dup_matrix = [''7.5.2.1'', ''7.5.2.1'']"
  by (simp add: extract_all_requirement_ids_def dup_matrix_def sorted_py_def sort_stable_def
      startswith_def)

section \<open>What an update returns\<close>

lemma update_unknown_key:
  "map_of (tables sd) (status_key req_id) = None \<Longrightarrow>
   update_requirement_status req_id lvl impl tfile nts now (Some sd) = (Returned False, Some sd)"
  by (simp add: update_requirement_status_def load_current_status_def)





lemma demo_update:
  "update_requirement_status ''7.5.2.2'' 3 [] [] [] demo_clock (Some demo_ledger)
     = (Returned True, Some demo_updated)"
  by code_simp


section \<open>Counting levels and rounding\<close>















section \<open>Updating a freshly initialized Ledger\<close>

text \<open>
  Claim C1. A requirement id that the initializer seeded can be set to any level from 0
  to 4 afterwards. The code does not do that. The initializer stores requirement 7.5.2.1
  under \<open>status."7.5.2.1"\<close>; the updater looks for \<open>status.\<close>, seven backslashes, a
  quote, the id, seven backslashes, a quote. On the Ledger initialized from
  \<open>demo_matrix\<close> the update of 7.5.2.1 to level 3 returns \<open>False\<close> and the file stays
  as it was.
\<close>

theorem set_level_fails_after_initialize:
  "''7.5.2.1'' \<in> set (extract_all_requirement_ids demo_matrix)
   \<and> update_requirement_status ''7.5.2.1'' 3 [] [] [] later_clock
       (Some (create_initial_status demo_matrix (extract_all_requirement_ids demo_matrix) demo_clock))
     = (Returned False,
        Some (create_initial_status demo_matrix (extract_all_requirement_ids demo_matrix) demo_clock))"
  by (simp add: demo_ids update_unknown_key [OF initialized_has_no_updater_key])

text \<open>The same holds for every Matrix, every id and every level.\<close>

lemma set_level_never_succeeds_after_initialize:
  "update_requirement_status req_id lvl impl tfile nts now (Some (create_initial_status m ids now'))
     = (Returned False, Some (create_initial_status m ids now'))"
  by (rule update_unknown_key [OF initialized_has_no_updater_key])

section \<open>Statistics after an update\<close>



section \<open>Rejected updates\<close>

text \<open>
  Claim C3. When the level is outside 0..4, or the requirement id is not in the Ledger
  under the updater's key, \<open>update_requirement_status\<close> returns \<open>False\<close> and the Ledger
  file is exactly what it was: no entry and no statistic changes, and no level is
  clamped into range.
\<close>

theorem set_level_invalid_no_mutation:
  assumes "lvl < 0 \<or> 4 < lvl \<or> status_key req_id \<notin> fst ` set (tables sd)"
  shows "update_requirement_status req_id lvl impl tfile nts now (Some sd)
           = (Returned False, Some sd)"
proof (cases "lvl < 0 \<or> 4 < lvl")
  case True
  then have "lvl \<notin> set [0, 1, 2, 3, 4]" by auto
  then show ?thesis
    by (simp add: update_requirement_status_def load_current_status_def)
next
  case False
  with assms have "map_of (tables sd) (status_key req_id) = None"
    by (simp add: map_of_eq_None_iff)
  then show ?thesis
    by (rule update_unknown_key)
qed

theorem set_level_invalid_no_mutation_witness:
  "update_requirement_status ''7.5.2.1'' 7 [] [] [] demo_clock (Some demo_ledger)
     = (Returned False, Some demo_ledger)
   \<and> update_requirement_status ''9.9.9'' 3 [] [] [] demo_clock (Some demo_ledger)
     = (Returned False, Some demo_ledger)"
proof -
  have a: "(7::int) < 0 \<or> 4 < (7::int) \<or> status_key ''7.5.2.1'' \<notin> fst ` set (tables demo_ledger)"
    by simp
  have b: "(3::int) < 0 \<or> 4 < (3::int) \<or> status_key ''9.9.9'' \<notin> fst ` set (tables demo_ledger)"
    by (simp add: demo_ledger_def status_key_def)
  show ?thesis
    using set_level_invalid_no_mutation [OF a] set_level_invalid_no_mutation [OF b] by simp
qed

section \<open>Initialization\<close>



text \<open>
  Claim C6, as the specification states it: initialization fails on a Matrix with a
  duplicate requirement id. It does not. For \<open>dup_matrix\<close>, where 7.5.2.1 occurs
  twice, the run ends with status 0 and writes a Ledger with one table for 7.5.2.1
  and \<open>total_requirements = 2\<close>.
\<close>

theorem initialize_accepts_duplicates_counterexample:
  "\<not> distinct (collect_ids (sections dup_matrix))
   \<and> create_initial_status_main (Some dup_matrix) [] demo_clock None
       = (0, Some (create_initial_status dup_matrix [''7.5.2.1'', ''7.5.2.1''] demo_clock))
   \<and> tables (create_initial_status dup_matrix [''7.5.2.1'', ''7.5.2.1''] demo_clock)
       = [(initial_status_key ''7.5.2.1'', initial_entry)]
   \<and> total_requirements (metadata
         (create_initial_status dup_matrix [''7.5.2.1'', ''7.5.2.1''] demo_clock)) = 2"
  by (simp add: create_initial_status_main_def dup_ids create_initial_status_def)
     (simp add: dup_matrix_def startswith_def)

text \<open>
  Claim C6, amended. The initializer has no check for duplicate ids. When the Matrix
  file exists and there is no Ledger file yet, the run ends with status 0 and writes
  the initial Ledger, whatever the ids are: the Ledger has one table for each distinct
  id, while \<open>total_requirements\<close> and \<open>level_0_count\<close> count every occurrence.
\<close>

theorem initialize_collapses_duplicates:
  "create_initial_status_main (Some m) response now None
     = (0, Some (create_initial_status m (extract_all_requirement_ids m) now))
   \<and> length (tables (create_initial_status m (extract_all_requirement_ids m) now))
       = card (set (collect_ids (sections m)))
   \<and> total_requirements (metadata (create_initial_status m (extract_all_requirement_ids m) now))
       = int (length (collect_ids (sections m)))
   \<and> level_0_count (statistics (create_initial_status m (extract_all_requirement_ids m) now))
       = int (length (collect_ids (sections m)))"
proof -
  let ?t = "init_tables (extract_all_requirement_ids m) []"
  have "distinct (map fst ?t)" by (rule init_tables_distinct) simp
  then have "length ?t = card (fst ` set ?t)"
    by (metis distinct_card length_map set_map)
  also have "\<dots> = card (initial_status_key ` set (collect_ids (sections m)))"
    by (simp add: init_tables_keys set_extract_ids)
  also have "\<dots> = card (set (collect_ids (sections m)))"
    by (rule card_image) (rule inj_on_subset [OF initial_status_key_inj subset_UNIV])
  finally show ?thesis
    by (simp add: create_initial_status_main_def create_initial_status_def length_extract_ids)
qed

theorem initialize_collapses_duplicates_witness:
  "fst (create_initial_status_main (Some dup_matrix) [] demo_clock None) = 0
   \<and> length (tables (create_initial_status dup_matrix
                (extract_all_requirement_ids dup_matrix) demo_clock)) = 1
   \<and> total_requirements (metadata (create_initial_status dup_matrix
                (extract_all_requirement_ids dup_matrix) demo_clock)) = 2
   \<and> level_0_count (statistics (create_initial_status dup_matrix
                (extract_all_requirement_ids dup_matrix) demo_clock)) = 2"
proof -
  have "collect_ids (sections dup_matrix) = [''7.5.2.1'', ''7.5.2.1'']"
    by (simp add: dup_matrix_def startswith_def)
  with initialize_collapses_duplicates [of dup_matrix "[]" demo_clock]
  show ?thesis by simp
qed

section \<open>Repeating and framing an update\<close>






section \<open>The recent-activity table of the report\<close>

text \<open>
  Claim C7. The recent-activity table lists the most recently checked entries first
  and the entries last checked \<open>never\<close> after all entries with a time stamp. The code
  sorts the strings in descending order, and \<open>never\<close> is greater than every ISO time
  stamp, which starts with a digit: on \<open>report_ledger\<close>, where 7.5.2.1 was checked on
  2025-08-21 and 7.5.2.2 never, the row of 7.5.2.2 comes first.
\<close>

theorem never_sorts_first_in_recent_activity:
  "map (\<lambda>x. (fst x, recent_key x)) (recent_activity_rows report_ledger)
     = [(''7.5.2.2'', ''never''), (''7.5.2.1'', ''2025-08-21'')]"
  by (simp add: recent_activity_rows_def recent_updates_def report_ledger_def sort_stable_def
      recent_key_def initial_status_key_def dquote_def startswith_def str_replace_def
      demo_entry_def initial_entry_def)

text \<open>Every string that starts with a digit is less than \<open>never\<close>.\<close>

lemma timestamp_less_than_never:
  "(48::nat) \<le> of_char c \<Longrightarrow> of_char c \<le> (57::nat) \<Longrightarrow> str_lt (c # cs) ''never''"
  by auto

section \<open>Exit status of the updater\<close>

text \<open>
  Claim C8, as the specification states it: the updater exits with status 1 on an
  invalid level and on an unknown requirement id. It does not. For the unknown id
  9.9.9 \<open>update_requirement_status\<close> returns \<open>False\<close>, \<open>main\<close> drops that value and the
  run ends with status 0; for level 7 the argument parser ends the run with status 2.
\<close>

theorem cli_exit_status_counterexample:
  "update_requirement_status ''9.9.9'' 3 [] [] [] demo_clock (Some demo_ledger)
     = (Returned False, Some demo_ledger)
   \<and> update_verification_status_main
       (no_args\<lparr>arg_req_id := Some ''9.9.9'', arg_level := Some 3\<rparr>) demo_clock (Some demo_ledger)
     = (0, Some demo_ledger)
   \<and> update_verification_status_main
       (no_args\<lparr>arg_req_id := Some ''7.5.2.1'', arg_level := Some 7\<rparr>) demo_clock (Some demo_ledger)
     = (2, Some demo_ledger)"
proof -
  have "map_of (tables demo_ledger) (status_key ''9.9.9'') = None"
    by (simp add: demo_ledger_def status_key_def)
  then have "update_requirement_status ''9.9.9'' 3 [] [] [] demo_clock (Some demo_ledger)
     = (Returned False, Some demo_ledger)"
    by (rule update_unknown_key)
  then show ?thesis
    by (simp add: update_verification_status_main_def no_args_def truthy_def or_empty_def
        exit_status_def)
qed

text \<open>
  Claim C8, amended. The updater exits with status 0 when the update succeeds, and the
  Ledger file is then the updated one; with status 1 when the Ledger file is missing
  and the command line asks for the statistics, for one requirement or for an update
  with a level from 0 to 4; with status 2, the file untouched, when \<open>--level\<close> is
  outside 0..4.
\<close>

theorem cli_exit_status:
  "(\<not> arg_stats a \<and> \<not> truthy (arg_show a) \<and> truthy (arg_req_id a) \<and> arg_level a = Some lvl
      \<and> update_requirement_status (or_empty (arg_req_id a)) lvl (or_empty (arg_implementation a))
           (or_empty (arg_test_file a)) (or_empty (arg_notes a)) now stored
         = (Returned True, stored')
      \<longrightarrow> update_verification_status_main a now stored = (0, stored'))
   \<and> ((case arg_level a of None \<Rightarrow> True | Some l \<Rightarrow> 0 \<le> l \<and> l \<le> 4)
      \<and> (arg_stats a \<or> truthy (arg_show a) \<or> (truthy (arg_req_id a) \<and> arg_level a \<noteq> None))
      \<longrightarrow> update_verification_status_main a now None = (1, None))
   \<and> (arg_level a = Some lvl \<and> (lvl < 0 \<or> 4 < lvl)
      \<longrightarrow> update_verification_status_main a now stored = (2, stored))"
proof (intro conjI impI)
  assume h: "\<not> arg_stats a \<and> \<not> truthy (arg_show a) \<and> truthy (arg_req_id a) \<and> arg_level a = Some lvl
      \<and> update_requirement_status (or_empty (arg_req_id a)) lvl (or_empty (arg_implementation a))
           (or_empty (arg_test_file a)) (or_empty (arg_notes a)) now stored
         = (Returned True, stored')"
  then have "lvl \<in> set [0, 1, 2, 3, 4]"
    by (auto simp: update_requirement_status_def load_current_status_def
        split: outcome.splits option.splits if_splits)
  with h show "update_verification_status_main a now stored = (0, stored')"
    by (simp add: update_verification_status_main_def exit_status_def)
next
  assume h: "(case arg_level a of None \<Rightarrow> True | Some l \<Rightarrow> 0 \<le> l \<and> l \<le> 4)
      \<and> (arg_stats a \<or> truthy (arg_show a) \<or> (truthy (arg_req_id a) \<and> arg_level a \<noteq> None))"
  then have "case arg_level a of None \<Rightarrow> True | Some l \<Rightarrow> l \<in> set [0, 1, 2, 3, 4]"
    by (auto split: option.splits)
  with h show "update_verification_status_main a now None = (1, None)"
    by (auto simp: update_verification_status_main_def exit_status_def
        show_overall_statistics_def show_requirement_status_def load_current_status_def
        update_requirement_status_def split: option.splits)
next
  assume "arg_level a = Some lvl \<and> (lvl < 0 \<or> 4 < lvl)"
  then show "update_verification_status_main a now stored = (2, stored)"
    by (auto simp: update_verification_status_main_def)
qed

theorem cli_exit_status_witness:
  "update_verification_status_main
       (no_args\<lparr>arg_req_id := Some ''7.5.2.2'', arg_level := Some 3\<rparr>) demo_clock (Some demo_ledger)
     = (0, Some demo_updated)
   \<and> update_verification_status_main
       (no_args\<lparr>arg_req_id := Some ''7.5.2.2'', arg_level := Some 3\<rparr>) demo_clock None
     = (1, None)
   \<and> update_verification_status_main
       (no_args\<lparr>arg_req_id := Some ''7.5.2.2'', arg_level := Some 7\<rparr>) demo_clock (Some demo_ledger)
     = (2, Some demo_ledger)"
  using
    cli_exit_status [of "no_args\<lparr>arg_req_id := Some ''7.5.2.2'', arg_level := Some 3\<rparr>" 3
      demo_clock "Some demo_ledger" "Some demo_updated"]
    cli_exit_status [of "no_args\<lparr>arg_req_id := Some ''7.5.2.2'', arg_level := Some 7\<rparr>" 7
      demo_clock "Some demo_ledger" "Some demo_ledger"]
  by (simp add: no_args_def truthy_def or_empty_def demo_update)

section \<open>The evidence score\<close>

lemma contains_empty: "contains s []"
  by (cases s) (simp_all add: startswith_def)

lemma count_from_absent: "\<not> contains s sub \<Longrightarrow> count_from sub s = 0"
  by (induction s) auto

lemma str_count_absent: "\<not> contains s sub \<Longrightarrow> str_count s sub = 0"
  using contains_empty [of s] by (auto simp: str_count_def count_from_absent)

lemma score_files_sum:
  "score_files keyword files score = score + (\<Sum>f\<leftarrow>files. min (str_count f keyword) 5)"
  by (induction files arbitrary: score) (simp_all add: str_count_absent)

lemma score_keywords_sum:
  "score_keywords kws files score = score + spec_score 5 kws files"
  by (induction kws arbitrary: score) (simp_all add: spec_score_def score_files_sum)

text \<open>
  Claim C9. The evidence score of a requirement is the sum, over its keywords and over
  the source files, of the smaller of the number of occurrences and the cap, the cap
  being 5; the requirement is implemented from a score of 20 on, partial from 8 up to
  19, and missing below 8.
\<close>

theorem evidence_score_and_level:
  "calculate_evidence_score findall source_files req
     = spec_score 5 (evidence_keywords findall req) (map snd source_files)
   \<and> implementation_level score = spec_classify 20 8 score
   \<and> (implementation_level score = Impl \<longleftrightarrow> 20 \<le> score)
   \<and> (implementation_level score = Partial \<longleftrightarrow> 8 \<le> score \<and> score < 20)
   \<and> (implementation_level score = Missing \<longleftrightarrow> score < 8)"
  by (auto simp: calculate_evidence_score_def score_keywords_sum implementation_level_def
      spec_classify_def)

theorem evidence_score_and_level_witness:
  "calculate_evidence_score (\<lambda>s. []) catalog_files catalog_req = 20
   \<and> spec_score 5 [''catalog''] (map snd catalog_files) = 20
   \<and> implementation_level 20 = Impl
   \<and> spec_classify 20 8 20 = Impl"
proof -
  have k: "evidence_keywords (\<lambda>s. []) catalog_req = [''catalog'']"
    by (simp add: evidence_keywords_def catalog_req_def)
  have s: "spec_score 5 [''catalog''] (map snd catalog_files) = 20"
    by code_simp
  from evidence_score_and_level [of "\<lambda>s. []" catalog_files catalog_req 20] k s
  show ?thesis by auto
qed

end
